theory Spec2Isabelle
  imports Complex_Main
begin

section \<open>The API service layer: \<open>apiUtils.buildQueryString\<close>\<close>

text \<open>
  The function walks \<open>Object.entries(params)\<close> and appends to a fresh
  \<open>URLSearchParams\<close>:
  \<^verbatim>\<open>
  Object.entries(params).forEach(([key, value]) => {
    if (value !== null && value !== undefined && value !== '') {
      if (Array.isArray(value)) { value.forEach(v => searchParams.append(key, v)) }
      else { searchParams.append(key, value) }
    }
  })
  return searchParams.toString()
  \<close>
  A JavaScript value is a \<open>jsval\<close>; the params object is the list of its entries in
  the order \<open>Object.entries\<close> yields them. \<open>URLSearchParams\<close> is the list of its
  name/value pairs. Two library behaviours are parameters: \<open>tostr\<close>, the string
  conversion \<open>append\<close> applies to a value, and \<open>enc\<close>, the percent-encoding of
  \<open>toString\<close>.
\<close>

datatype jsval =
    JNull
  | JUndefined
  | JStr string
  | JNum int
  | JBool bool
  | JArr "jsval list"
  | JObj "(string \<times> jsval) list"

type_synonym searchParams = "(string \<times> string) list"

definition append_param :: "searchParams \<Rightarrow> string \<Rightarrow> string \<Rightarrow> searchParams" where
  "append_param sp k v = sp @ [(k, v)]"

text \<open>\<open>value.forEach(v => searchParams.append(key, v))\<close>: no element is filtered.\<close>

fun append_each :: "(jsval \<Rightarrow> string) \<Rightarrow> string \<Rightarrow> jsval list \<Rightarrow> searchParams \<Rightarrow> searchParams" where
  "append_each tostr k [] sp = sp"
| "append_each tostr k (v # vs) sp = append_each tostr k vs (append_param sp k (tostr v))"

definition isArray :: "jsval \<Rightarrow> bool" where
  "isArray v = (case v of JArr _ \<Rightarrow> True | _ \<Rightarrow> False)"

text \<open>The body of the outer \<open>forEach\<close> callback, for one entry.\<close>

definition visit_entry :: "(jsval \<Rightarrow> string) \<Rightarrow> searchParams \<Rightarrow> string \<times> jsval \<Rightarrow> searchParams" where
  "visit_entry tostr sp e =
     (case e of (k, v) \<Rightarrow>
        if v \<noteq> JNull \<and> v \<noteq> JUndefined \<and> v \<noteq> JStr [] then
          (case v of
             JArr vs \<Rightarrow> append_each tostr k vs sp
           | _ \<Rightarrow> append_param sp k (tostr v))
        else sp)"

fun join_amp :: "string list \<Rightarrow> string" where
  "join_amp [] = []"
| "join_amp [x] = x"
| "join_amp (x # y # ys) = x @ ''&'' @ join_amp (y # ys)"

definition toString :: "(string \<Rightarrow> string) \<Rightarrow> searchParams \<Rightarrow> string" where
  "toString enc sp = join_amp (map (\<lambda>(k, v). enc k @ ''='' @ enc v) sp)"

definition buildQueryString ::
  "(jsval \<Rightarrow> string) \<Rightarrow> (string \<Rightarrow> string) \<Rightarrow> (string \<times> jsval) list \<Rightarrow> string" where
  "buildQueryString tostr enc params = toString enc (foldl (visit_entry tostr) [] params)"

text \<open>
  What the entry \<open>(k, v)\<close> is said to contribute: nothing when \<open>v\<close> is null,
  undefined or the empty string; one pair per element, in order, when \<open>v\<close> is an
  array; one pair otherwise.
\<close>

definition omitted :: "jsval \<Rightarrow> bool" where
  "omitted v = (v = JNull \<or> v = JUndefined \<or> v = JStr [])"

definition entry_pairs :: "(jsval \<Rightarrow> string) \<Rightarrow> string \<times> jsval \<Rightarrow> searchParams" where
  "entry_pairs tostr e =
     (if omitted (snd e) then []
      else if isArray (snd e) then
        (case snd e of JArr vs \<Rightarrow> map (\<lambda>x. (fst e, tostr x)) vs | _ \<Rightarrow> [])
      else [(fst e, tostr (snd e))])"

lemma append_each_eq: "append_each tostr k vs sp = sp @ map (\<lambda>x. (k, tostr x)) vs"
  by (induction vs arbitrary: sp) (simp_all add: append_param_def)

lemma visit_entry_eq: "visit_entry tostr sp e = sp @ entry_pairs tostr e"
  by (cases e; cases "snd e")
     (simp_all add: visit_entry_def entry_pairs_def omitted_def isArray_def
        append_param_def append_each_eq)

lemma foldl_visit_entry:
  "foldl (visit_entry tostr) sp params = sp @ concat (map (entry_pairs tostr) params)"
  by (induction params arbitrary: sp) (simp_all add: visit_entry_eq)

text \<open>An example, with a string conversion that is the identity on strings.\<close>

fun plain_tostr :: "jsval \<Rightarrow> string" where
  "plain_tostr (JStr s) = s"
| "plain_tostr JNull = ''null''"
| "plain_tostr JUndefined = ''undefined''"
| "plain_tostr (JBool b) = (if b then ''true'' else ''false'')"
| "plain_tostr v = ''[object]''"

lemma buildQueryString_example:
  "buildQueryString plain_tostr id
     [(''field'', JStr ''ai''), (''country'', JNull), (''level'', JArr [JStr ''msc'', JStr ''phd'']),
      (''search'', JStr []), (''page'', JUndefined), (''funded'', JBool True), (''tags'', JArr [])]
   = ''field=ai&level=msc&level=phd&funded=true''"
  by (simp add: buildQueryString_def visit_entry_def append_param_def toString_def)

text \<open>
  C10. For every params object, \<open>buildQueryString\<close> returns the serialisation of the
  entries' contributions in entry order: an entry whose value is null, undefined or
  the empty string contributes nothing, an array-valued entry contributes one
  \<open>key=element\<close> pair per element in element order, and every other entry
  contributes exactly one pair.
\<close>

theorem buildQueryString_pairs:
  "buildQueryString tostr enc params
     = toString enc (concat (map (entry_pairs tostr) params))
   \<and> entry_pairs tostr (k, JNull) = []
   \<and> entry_pairs tostr (k, JUndefined) = []
   \<and> entry_pairs tostr (k, JStr []) = []
   \<and> entry_pairs tostr (k, JArr vs) = map (\<lambda>x. (k, tostr x)) vs
   \<and> entry_pairs tostr (k, JStr (c # cs)) = [(k, tostr (JStr (c # cs)))]
   \<and> entry_pairs tostr (k, JNum n) = [(k, tostr (JNum n))]
   \<and> entry_pairs tostr (k, JBool b) = [(k, tostr (JBool b))]
   \<and> entry_pairs tostr (k, JObj fs) = [(k, tostr (JObj fs))]"
  by (simp add: buildQueryString_def foldl_visit_entry entry_pairs_def omitted_def isArray_def)

section \<open>The WebSocket service\<close>

text \<open>
  \<open>src/frontend/src/services/websocket.js\<close>. A \<open>WebSocket\<close> object is a record
  of the fields the service reads and of the frames handed to its \<open>send\<close>. The
  service's two tables are maps. What the methods do to the outside is kept in the
  state as well: the URLs given to \<open>new WebSocket\<close>, the calls of \<open>close\<close>, the
  callbacks given to \<open>setTimeout\<close> and the toasts shown. The \<open>options\<close> callbacks
  (\<open>onOpen\<close>, \<open>onMessage\<close>, \<open>onClose\<close>, \<open>onError\<close>) are React state setters of the
  hook in \<open>useWebSocket\<close>, which never touch the service; of \<open>options\<close> the model
  keeps \<open>initialMessage\<close>. The listener table is used by \<open>handleMessage\<close> only
  and is left out.
\<close>

datatype readyState = CONNECTING | OPEN | CLOSING | CLOSED

record websocket =
  ws_url :: string
  readyState :: readyState
  outgoing :: "string list"

datatype toast = Toast_success string | Toast_error string | Toast_info string

record 'm options =
  initialMessage :: "'m option"

record 'm timer =
  delay :: nat
  timer_endpoint :: string
  timer_options :: "'m options"
  next_attempt :: nat

record 'm service =
  connections :: "string \<rightharpoonup> websocket"
  reconnectAttempts :: "string \<rightharpoonup> nat"
  maxReconnectAttempts :: nat
  reconnectDelay :: nat
  constructed :: "string list"
  close_calls :: "(string \<times> nat \<times> string) list"
  timers :: "'m timer list"
  toasts :: "toast list"

text \<open>The constructor.\<close>

definition new_service :: "'m service" where
  "new_service =
     \<lparr> connections = Map.empty, reconnectAttempts = Map.empty,
       maxReconnectAttempts = 5, reconnectDelay = 1000,
       constructed = [], close_calls = [], timers = [], toasts = [] \<rparr>"

text \<open>
  \<open>window.location\<close>, and the URLs on which \<open>new WebSocket\<close> throws (the
  \<open>try\<close>/\<open>catch\<close> of \<open>connect\<close>).
\<close>

record browser =
  protocol :: string
  host :: string
  rejects :: "string \<Rightarrow> bool"

definition getWebSocketUrl :: "browser \<Rightarrow> string \<Rightarrow> string" where
  "getWebSocketUrl br endpoint =
     (if protocol br = ''https:'' then ''wss:'' else ''ws:'')
       @ ''//'' @ host br @ ''/ws/'' @ endpoint @ ''/''"

definition disconnect :: "'m service \<Rightarrow> string \<Rightarrow> 'm service" where
  "disconnect svc connectionId =
     (case connections svc connectionId of
        Some ws \<Rightarrow>
          svc\<lparr> close_calls := close_calls svc @ [(ws_url ws, 1000, ''Intentional disconnect'')],
               connections := (connections svc)(connectionId := None),
               reconnectAttempts := (reconnectAttempts svc)(connectionId := None) \<rparr>
      | None \<Rightarrow> svc)"

text \<open>
  \<open>send\<close>: \<open>stringify\<close> is \<open>JSON.stringify\<close> on the message type. The result is
  the returned boolean and the service afterwards.
\<close>

definition send :: "('m \<Rightarrow> string) \<Rightarrow> 'm service \<Rightarrow> string \<Rightarrow> 'm \<Rightarrow> bool \<times> 'm service" where
  "send stringify svc connectionId message =
     (case connections svc connectionId of
        Some ws \<Rightarrow>
          if readyState ws = OPEN then
            (True, svc\<lparr> connections := (connections svc)
                       (connectionId \<mapsto> ws\<lparr> outgoing := outgoing ws @ [stringify message] \<rparr>) \<rparr>)
          else (False, svc)
      | None \<Rightarrow> (False, svc))"

definition isConnected :: "'m service \<Rightarrow> string \<Rightarrow> bool" where
  "isConnected svc connectionId =
     (case connections svc connectionId of
        Some ws \<Rightarrow> readyState ws = OPEN
      | None \<Rightarrow> False)"

text \<open>
  \<open>connect\<close> up to the construction of the socket. The handlers it installs are the
  functions \<open>ws_onopen\<close> and \<open>ws_onclose\<close> below, run when the browser fires the
  event.
\<close>

definition connect :: "browser \<Rightarrow> 'm service \<Rightarrow> string \<Rightarrow> 'm options \<Rightarrow> 'm service" where
  "connect br svc endpoint opts =
     (let wsUrl = getWebSocketUrl br endpoint;
          svc1 = (if connections svc endpoint \<noteq> None then disconnect svc endpoint else svc)
      in if rejects br wsUrl then
           svc1\<lparr> toasts := toasts svc1 @ [Toast_error ''Failed to establish real-time connection''] \<rparr>
         else svc1\<lparr> constructed := constructed svc1 @ [wsUrl] \<rparr>)"

text \<open>
  The \<open>onopen\<close> handler. \<open>if (options.initialMessage)\<close> tests the message for
  truthiness; \<open>truthy\<close> is that test on the message type.
\<close>

definition ws_onopen ::
  "('m \<Rightarrow> string) \<Rightarrow> ('m \<Rightarrow> bool) \<Rightarrow> browser \<Rightarrow> 'm service \<Rightarrow> string \<Rightarrow> 'm options
     \<Rightarrow> 'm service" where
  "ws_onopen stringify truthy br svc endpoint opts =
     (let ws = \<lparr> ws_url = getWebSocketUrl br endpoint, readyState = OPEN, outgoing = [] \<rparr>;
          svc1 = svc\<lparr> connections := (connections svc)(endpoint \<mapsto> ws),
                     reconnectAttempts := (reconnectAttempts svc)(endpoint \<mapsto> 0) \<rparr>
      in case initialMessage opts of
           Some m \<Rightarrow> if truthy m then snd (send stringify svc1 endpoint m) else svc1
         | None \<Rightarrow> svc1)"

text \<open>\<open>this.reconnectAttempts.get(connectionId) || 0\<close>.\<close>

definition attempts_of :: "'m service \<Rightarrow> string \<Rightarrow> nat" where
  "attempts_of svc connectionId =
     (case reconnectAttempts svc connectionId of Some n \<Rightarrow> n | None \<Rightarrow> 0)"

definition attemptReconnect :: "'m service \<Rightarrow> string \<Rightarrow> 'm options \<Rightarrow> 'm service" where
  "attemptReconnect svc endpoint opts =
     (let attempts = attempts_of svc endpoint
      in if attempts \<ge> maxReconnectAttempts svc then
           svc\<lparr> toasts := toasts svc
                  @ [Toast_error ''Lost connection to server. Please refresh the page.''] \<rparr>
         else
           svc\<lparr> timers := timers svc
                  @ [\<lparr> delay = reconnectDelay svc * 2 ^ attempts, timer_endpoint = endpoint,
                       timer_options = opts, next_attempt = attempts + 1 \<rparr>] \<rparr>)"

text \<open>The callback given to \<open>setTimeout\<close>, when the timer fires.\<close>

definition timer_fire :: "browser \<Rightarrow> 'm service \<Rightarrow> 'm timer \<Rightarrow> 'm service" where
  "timer_fire br svc t =
     connect br
       (svc\<lparr> reconnectAttempts := (reconnectAttempts svc)(timer_endpoint t \<mapsto> next_attempt t) \<rparr>)
       (timer_endpoint t) (timer_options t)"

definition ws_onclose :: "'m service \<Rightarrow> string \<Rightarrow> 'm options \<Rightarrow> nat \<Rightarrow> 'm service" where
  "ws_onclose svc endpoint opts code =
     (let svc1 = svc\<lparr> connections := (connections svc)(endpoint := None) \<rparr>
      in if code \<noteq> 1000 \<and> code \<noteq> 1001 then attemptReconnect svc1 endpoint opts else svc1)"

subsection \<open>\<open>send\<close>\<close>

text \<open>The frames handed so far to the socket registered under a connection id.\<close>

definition transmitted :: "'m service \<Rightarrow> string \<Rightarrow> string list" where
  "transmitted svc connectionId =
     (case connections svc connectionId of Some ws \<Rightarrow> outgoing ws | None \<Rightarrow> [])"

lemma isConnected_iff:
  "isConnected svc cid \<longleftrightarrow> (\<exists>ws. connections svc cid = Some ws \<and> readyState ws = OPEN)"
  by (simp add: isConnected_def split: option.splits)

lemma send_result: "fst (send stringify svc cid m) = isConnected svc cid"
  by (simp add: send_def isConnected_def split: option.splits)

lemma send_closed: "\<not> isConnected svc cid \<Longrightarrow> send stringify svc cid m = (False, svc)"
  by (cases "connections svc cid") (simp_all add: send_def isConnected_def)

lemma send_open_frames:
  assumes "isConnected svc cid"
  shows "transmitted (snd (send stringify svc cid m)) c
           = (if c = cid then transmitted svc cid @ [stringify m] else transmitted svc c)"
  using assms
  by (auto simp add: send_def isConnected_def transmitted_def split: option.splits)

text \<open>
  C9. \<open>send\<close> returns true exactly when a connection is registered under the id and
  its \<open>readyState\<close> is \<open>OPEN\<close>. Then the serialised message is handed to that socket,
  after the frames it already has, and no other connection is touched. In every
  other case it returns false and leaves the service as it was. The function has no
  branch that throws.
\<close>

theorem send_iff_open:
  "(fst (send stringify svc cid m)
      \<longleftrightarrow> (\<exists>ws. connections svc cid = Some ws \<and> readyState ws = OPEN))
   \<and> ((\<exists>ws. connections svc cid = Some ws \<and> readyState ws = OPEN) \<longrightarrow>
        transmitted (snd (send stringify svc cid m)) cid
          = transmitted svc cid @ [stringify m]
        \<and> (\<forall>c. c \<noteq> cid \<longrightarrow>
              transmitted (snd (send stringify svc cid m)) c = transmitted svc c))
   \<and> (\<not> (\<exists>ws. connections svc cid = Some ws \<and> readyState ws = OPEN) \<longrightarrow>
        send stringify svc cid m = (False, svc))"
proof -
  have r: "fst (send stringify svc cid m) \<longleftrightarrow> isConnected svc cid"
    by (simp add: send_result)
  show ?thesis
    unfolding isConnected_iff [symmetric]
    using r send_closed [of svc cid stringify m] send_open_frames [of svc cid stringify m]
    by auto
qed

definition demo_socket :: websocket where
  "demo_socket =
     \<lparr> ws_url = ''ws://localhost:3000/ws/dashboard/'', readyState = OPEN, outgoing = [] \<rparr>"

definition demo_service :: "string service" where
  "demo_service = new_service \<lparr> connections := [''dashboard'' \<mapsto> demo_socket] \<rparr>"

theorem send_iff_open_witness:
  "fst (send id demo_service ''dashboard'' ''ping'')
   \<and> transmitted (snd (send id demo_service ''dashboard'' ''ping'')) ''dashboard'' = [''ping'']
   \<and> send id demo_service ''search/7'' ''ping'' = (False, demo_service)"
proof -
  have o: "\<exists>ws. connections demo_service ''dashboard'' = Some ws \<and> readyState ws = OPEN"
    by (simp add: demo_service_def demo_socket_def)
  have c: "\<not> (\<exists>ws. connections demo_service ''search/7'' = Some ws \<and> readyState ws = OPEN)"
    by (simp add: demo_service_def)
  have t: "transmitted demo_service ''dashboard'' = []"
    by (simp add: transmitted_def demo_service_def demo_socket_def)
  show ?thesis
    using send_iff_open [of id demo_service "''dashboard''" "''ping''"]
          send_iff_open [of id demo_service "''search/7''" "''ping''"] o c t
    by simp
qed

subsection \<open>Reconnection\<close>

text \<open>
  What the handlers of a socket do to the tables and the timers. A close with a code
  other than 1000 and 1001 starts one timer, with delay
  \<open>reconnectDelay * 2 ^ attempts\<close>, while the attempts recorded for the endpoint are
  below \<open>maxReconnectAttempts\<close>; an open registers the socket and sets the attempts
  of the endpoint back to 0.
\<close>

lemma attemptReconnect_timers:
  "timers (attemptReconnect svc ep opts) =
     (if attempts_of svc ep < maxReconnectAttempts svc
      then timers svc @ [\<lparr> delay = reconnectDelay svc * 2 ^ attempts_of svc ep,
                            timer_endpoint = ep, timer_options = opts,
                            next_attempt = attempts_of svc ep + 1 \<rparr>]
      else timers svc)"
  by (simp add: attemptReconnect_def Let_def)

lemma ws_onclose_timers:
  "timers (ws_onclose svc ep opts code) =
     (if code \<noteq> 1000 \<and> code \<noteq> 1001 \<and> attempts_of svc ep < maxReconnectAttempts svc
      then timers svc @ [\<lparr> delay = reconnectDelay svc * 2 ^ attempts_of svc ep,
                            timer_endpoint = ep, timer_options = opts,
                            next_attempt = attempts_of svc ep + 1 \<rparr>]
      else timers svc)"
  by (simp add: ws_onclose_def Let_def attemptReconnect_timers attempts_of_def)

lemma ws_onopen_resets:
  "attempts_of (ws_onopen stringify truthy br svc ep opts) ep = 0"
  "isConnected (ws_onopen stringify truthy br svc ep opts) ep"
  by (simp_all add: ws_onopen_def Let_def send_def attempts_of_def isConnected_def
        split: option.splits)

section \<open>The LiveAIHunter component\<close>

text \<open>
  \<open>src/unnamed/part_003\<close>. The component's \<open>useState\<close> cells are the fields of a
  record. Every setter in the functions below is called with an updater
  \<open>prev => ...\<close>, or with a value that does not depend on the state, so the
  setters of one handler compose in program order. \<open>Date.now()\<close> and
  \<open>new Date()\<close> stamps and the emoji that open the thought texts are left out. A
  message is the parsed \<open>event.data\<close>, one constructor per \<open>case\<close> of the
  \<open>switch\<close> on \<open>data.type\<close> and one for every other type. \<open>prev.slice(-n)\<close>
  keeps the last \<open>n\<close> elements.
\<close>

record huntingStats =
  websitesVisited :: nat
  scholarshipsFound :: nat
  tunisiaEligible :: nat
  timeElapsed :: nat

record scholarship =
  name :: string
  tunisia_eligible :: bool

record aiThought =
  thought :: string
  thought_kind :: string

record hunter =
  isHunting :: bool
  currentWebsite :: string
  browserContent :: string
  aiThoughts :: "aiThought list"
  foundScholarships :: "scholarship list"
  huntingStats :: huntingStats
  currentAction :: string
  browserHistory :: "string list"
  isLoading :: bool

definition slice_last :: "nat \<Rightarrow> 'a list \<Rightarrow> 'a list" where
  "slice_last n xs = drop (length xs - n) xs"

definition simulateBrowserNavigation :: "string \<Rightarrow> string \<Rightarrow> hunter \<Rightarrow> hunter" where
  "simulateBrowserNavigation url content h =
     h\<lparr> currentWebsite := url, browserContent := content,
        browserHistory := slice_last 4 (browserHistory h) @ [url],
        isLoading := True \<rparr>"

definition addAIThought :: "string \<Rightarrow> string \<Rightarrow> hunter \<Rightarrow> hunter" where
  "addAIThought th kind h =
     h\<lparr> aiThoughts := slice_last 10 (aiThoughts h) @ [\<lparr> thought = th, thought_kind = kind \<rparr>] \<rparr>"

definition startHunting :: "hunter \<Rightarrow> hunter" where
  "startHunting h =
     h\<lparr> isHunting := True,
        huntingStats := \<lparr> websitesVisited = 0, scholarshipsFound = 0,
                           tunisiaEligible = 0, timeElapsed = 0 \<rparr>,
        foundScholarships := [],
        aiThoughts := [],
        browserHistory := [] \<rparr>"

text \<open>The callback \<open>startHunting\<close> gives to \<open>setInterval\<close>.\<close>

definition timer_tick :: "hunter \<Rightarrow> hunter" where
  "timer_tick h =
     h\<lparr> huntingStats := (huntingStats h)\<lparr> timeElapsed := timeElapsed (huntingStats h) + 1 \<rparr> \<rparr>"

datatype message =
    Ai_thought string
  | Website_visit string "string option"
  | Scholarship_found scholarship
  | Ai_decision string
  | Error_report string
  | Status string
  | Other_type string

definition handleWebSocketMessage :: "message \<Rightarrow> hunter \<Rightarrow> hunter" where
  "handleWebSocketMessage data h =
     (case data of
        Ai_thought m \<Rightarrow> addAIThought m ''thinking'' h
      | Website_visit url content \<Rightarrow>
          (let h1 = h\<lparr> currentAction := ''Visiting '' @ url \<rparr>;
               h2 = simulateBrowserNavigation url
                      (case content of
                         Some c \<Rightarrow> if c = [] then ''Loading website content...'' else c
                       | None \<Rightarrow> ''Loading website content...'') h1
           in h2\<lparr> huntingStats := (huntingStats h2)
                    \<lparr> websitesVisited := websitesVisited (huntingStats h2) + 1 \<rparr> \<rparr>)
      | Scholarship_found scholarship \<Rightarrow>
          (let h1 = h\<lparr> foundScholarships := foundScholarships h @ [scholarship] \<rparr>;
               h2 = h1\<lparr> huntingStats := (huntingStats h1)
                      \<lparr> scholarshipsFound := scholarshipsFound (huntingStats h1) + 1,
                        tunisiaEligible :=
                          (if tunisia_eligible scholarship
                           then tunisiaEligible (huntingStats h1) + 1
                           else tunisiaEligible (huntingStats h1)) \<rparr> \<rparr>
           in addAIThought (''Found scholarship: '' @ name scholarship) ''success'' h2)
      | Ai_decision m \<Rightarrow> addAIThought (''Decision: '' @ m) ''decision'' h
      | Error_report m \<Rightarrow> addAIThought (''Error: '' @ m) ''error'' h
      | Status m \<Rightarrow> h\<lparr> currentAction := m \<rparr>
      | Other_type t \<Rightarrow> h)"

text \<open>The messages of a hunt, handled in the order they arrive.\<close>

definition process :: "message list \<Rightarrow> hunter \<Rightarrow> hunter" where
  "process ms h = foldl (\<lambda>h m. handleWebSocketMessage m h) h ms"

text \<open>The two relations between the counters and the list of scholarships found.\<close>

definition counters_ok :: "hunter \<Rightarrow> bool" where
  "counters_ok h =
     (tunisiaEligible (huntingStats h) \<le> scholarshipsFound (huntingStats h)
      \<and> scholarshipsFound (huntingStats h) = length (foundScholarships h))"

lemma handle_found:
  "foundScholarships (handleWebSocketMessage m h)
     = (case m of Scholarship_found s \<Rightarrow> foundScholarships h @ [s] | _ \<Rightarrow> foundScholarships h)"
  by (cases m)
     (simp_all add: handleWebSocketMessage_def addAIThought_def simulateBrowserNavigation_def Let_def)

lemma handle_count:
  "scholarshipsFound (huntingStats (handleWebSocketMessage m h))
     = (case m of Scholarship_found s \<Rightarrow> scholarshipsFound (huntingStats h) + 1
        | _ \<Rightarrow> scholarshipsFound (huntingStats h))"
  by (cases m)
     (simp_all add: handleWebSocketMessage_def addAIThought_def simulateBrowserNavigation_def Let_def)

lemma handle_eligible:
  "tunisiaEligible (huntingStats (handleWebSocketMessage m h))
     = (case m of
          Scholarship_found s \<Rightarrow>
            (if tunisia_eligible s then tunisiaEligible (huntingStats h) + 1
             else tunisiaEligible (huntingStats h))
        | _ \<Rightarrow> tunisiaEligible (huntingStats h))"
  by (cases m)
     (simp_all add: handleWebSocketMessage_def addAIThought_def simulateBrowserNavigation_def Let_def)

lemma counters_ok_start: "counters_ok (startHunting h)"
  by (simp add: counters_ok_def startHunting_def)

lemma counters_ok_handle:
  assumes "counters_ok h"
  shows "counters_ok (handleWebSocketMessage m h)"
  using assms unfolding counters_ok_def handle_found handle_count handle_eligible
  by (cases m) simp_all

lemma counters_ok_tick: "counters_ok h \<Longrightarrow> counters_ok (timer_tick h)"
  by (simp add: counters_ok_def timer_tick_def)

lemma counters_ok_process: "counters_ok h \<Longrightarrow> counters_ok (process ms h)"
  unfolding process_def
proof (induction ms arbitrary: h)
  case Nil
  then show ?case by simp
next
  case (Cons m ms)
  from Cons.prems have "counters_ok (handleWebSocketMessage m h)"
    by (rule counters_ok_handle)
  then show ?case using Cons.IH by simp
qed

text \<open>A short hunt, from the component's initial state.\<close>

definition idle_hunter :: hunter where
  "idle_hunter =
     \<lparr> isHunting = False, currentWebsite = [], browserContent = [], aiThoughts = [],
       foundScholarships = [],
       huntingStats = \<lparr> websitesVisited = 0, scholarshipsFound = 0, tunisiaEligible = 0,
                         timeElapsed = 0 \<rparr>,
       currentAction = [], browserHistory = [], isLoading = False \<rparr>"

lemma process_example:
  "huntingStats (process
      [Website_visit ''https://daad.de'' None,
       Scholarship_found \<lparr> name = ''DAAD EPOS'', tunisia_eligible = True \<rparr>,
       Status ''Analyzing'',
       Scholarship_found \<lparr> name = ''Erasmus Mundus'', tunisia_eligible = False \<rparr>]
      (startHunting idle_hunter))
   = \<lparr> websitesVisited = 1, scholarshipsFound = 2, tunisiaEligible = 1, timeElapsed = 0 \<rparr>
   \<and> map name (foundScholarships (process
      [Website_visit ''https://daad.de'' None,
       Scholarship_found \<lparr> name = ''DAAD EPOS'', tunisia_eligible = True \<rparr>,
       Status ''Analyzing'',
       Scholarship_found \<lparr> name = ''Erasmus Mundus'', tunisia_eligible = False \<rparr>]
      (startHunting idle_hunter)))
     = [''DAAD EPOS'', ''Erasmus Mundus'']"
  by (simp add: process_def handleWebSocketMessage_def startHunting_def idle_hunter_def
        addAIThought_def simulateBrowserNavigation_def slice_last_def Let_def)

text \<open>
  C8. From the state \<open>startHunting\<close> sets up, after any sequence of messages
  \<open>tunisiaEligible\<close> is at most \<open>scholarshipsFound\<close>, and \<open>scholarshipsFound\<close> is
  the length of \<open>foundScholarships\<close>. A \<open>scholarship_found\<close> message appends its
  scholarship, adds one to \<open>scholarshipsFound\<close>, and adds one to
  \<open>tunisiaEligible\<close> when the scholarship's \<open>tunisia_eligible\<close> holds and nothing
  otherwise; a message of any other type leaves all three as they were.
\<close>

theorem hunter_counters:
  "tunisiaEligible (huntingStats (process ms (startHunting h0)))
     \<le> scholarshipsFound (huntingStats (process ms (startHunting h0)))
   \<and> scholarshipsFound (huntingStats (process ms (startHunting h0)))
       = length (foundScholarships (process ms (startHunting h0)))
   \<and> foundScholarships (handleWebSocketMessage m h)
       = (case m of Scholarship_found s \<Rightarrow> foundScholarships h @ [s]
          | _ \<Rightarrow> foundScholarships h)
   \<and> scholarshipsFound (huntingStats (handleWebSocketMessage m h))
       = (case m of Scholarship_found s \<Rightarrow> scholarshipsFound (huntingStats h) + 1
          | _ \<Rightarrow> scholarshipsFound (huntingStats h))
   \<and> tunisiaEligible (huntingStats (handleWebSocketMessage m h))
       = (case m of
            Scholarship_found s \<Rightarrow>
              (if tunisia_eligible s then tunisiaEligible (huntingStats h) + 1
               else tunisiaEligible (huntingStats h))
          | _ \<Rightarrow> tunisiaEligible (huntingStats h))"
proof -
  have "counters_ok (process ms (startHunting h0))"
    by (rule counters_ok_process) (rule counters_ok_start)
  then show ?thesis
    by (simp add: counters_ok_def handle_found handle_count handle_eligible)
qed

section \<open>The AI-agent layer: thoughts and content analysis\<close>

text \<open>
  The thought log and the content analyzer are code of
  \<open>apps/ai_agent/services.py\<close>. That file is not among the sources: what is left
  of it is a damaged compiled copy, of which only string constants can be read.
  The definitions of this section are therefore written from sections 3, 4.1, 4.3
  and 4.4 of the specification, each marked as such. Storage is a record of tables;
  a write appends a row and always succeeds. What the network and the model do is
  given by an \<open>environment\<close>: the outcome of a publish, the outcome of a completion
  request, and the parser of the model's answer. The world also keeps a journal of
  the effects in the order they happen.
\<close>

text \<open>Modelled from the spec: the Agent of section 3 (identity, model, active flag).\<close>

record agent =
  agent_name :: string
  agent_type :: string
  ai_model :: string
  is_active :: bool

text \<open>
  Modelled from the spec: the Thought of section 3 (agent, type, free-text content,
  importance, confidence score, creation timestamp).
\<close>

record thought_row =
  thought_agent :: string
  thought_type :: string
  thought_content :: string
  importance :: string
  confidence :: real
  created_at :: nat

text \<open>
  Modelled from the spec: the message of section 4.4,
  \<open>{type, agentName, content, thoughtType, confidence, timestamp}\<close>.
\<close>

record envelope =
  envelope_type :: string
  agentName :: string
  content :: string
  thoughtType :: string
  envelope_confidence :: real
  timestamp :: nat

text \<open>
  Modelled from the spec: the request of section 4.1 (role-tagged messages,
  temperature, max-token budget) and what the call comes back with: content with
  token count and processing time, or an error with processing time. Section 4.3
  also speaks of a lower-level exception during the call; that is \<open>Raised\<close>.
\<close>

record request =
  messages :: "(string \<times> string) list"
  temperature :: real
  max_tokens :: nat

datatype completion =
    Completed string nat real
  | Failed string real
  | Raised string

text \<open>
  Modelled from the spec: a candidate record of section 4.3 step 3, the parsed
  answer (candidates and a summary), and the ContentAnalysisResult of section 3:
  \<open>{scholarships, analysisSummary}\<close> or \<open>{error, rawResponse, scholarships: []}\<close>.
\<close>

record candidate =
  candidate_name :: string
  provider :: string
  country :: string
  field_of_study :: string
  academic_level :: string
  target_eligible :: bool
  funding_type :: string
  application_deadline :: string
  application_url :: string
  relevance_scores :: "(string \<times> real) list"

record extraction =
  extracted :: "candidate list"
  summary :: string

record analysis =
  scholarships :: "candidate list"
  analysisSummary :: "string option"
  error :: "string option"
  rawResponse :: "string option"

text \<open>
  Modelled from the spec: the storage and the channels the layer writes to. The
  thought table is the durable store; \<open>delivered\<close> holds what reached the
  publish/subscribe channel, by topic; \<open>requests\<close> holds what was sent to the
  completion endpoint.
\<close>

datatype event =
    Stored thought_row
  | Published string envelope
  | Publish_failed string envelope string
  | Requested request

record world =
  thought_table :: "thought_row list"
  delivered :: "(string \<times> envelope) list"
  log_lines :: "string list"
  requests :: "request list"
  journal :: "event list"
  clock :: nat

text \<open>
  Modelled from the spec: everything outside the layer. \<open>transport topic m\<close> is
  \<open>None\<close> when the publish goes through and \<open>Some e\<close> when it throws \<open>e\<close>.
  \<open>budget\<close> is the truncation budget of section 4.3 step 2, a tunable constant.
\<close>

record environment =
  transport :: "string \<Rightarrow> envelope \<Rightarrow> string option"
  endpoint :: "request \<Rightarrow> completion"
  parse_extraction :: "string \<Rightarrow> extraction option"
  default_confidence :: real
  system_prompt :: string
  budget :: nat
  analysis_temperature :: real
  analysis_max_tokens :: nat

subsection \<open>\<open>recordThought\<close>\<close>

text \<open>Modelled from the spec: the message section 4.4 publishes for a thought.\<close>

definition envelope_of :: "thought_row \<Rightarrow> envelope" where
  "envelope_of th =
     \<lparr> envelope_type = ''ai_thinking'', agentName = thought_agent th,
       content = thought_content th, thoughtType = thought_type th,
       envelope_confidence = confidence th, timestamp = created_at th \<rparr>"

text \<open>Modelled from the spec: the durable write of a thought (section 4.4).\<close>

definition persist_thought :: "thought_row \<Rightarrow> world \<Rightarrow> world" where
  "persist_thought th w =
     w\<lparr> thought_table := thought_table w @ [th], journal := journal w @ [Stored th] \<rparr>"

text \<open>
  Modelled from the spec: one publish on the shared channel (section 4.4). It either
  delivers the message under the topic or fails with the transport's error.
\<close>

definition publish :: "environment \<Rightarrow> string \<Rightarrow> envelope \<Rightarrow> world \<Rightarrow> (string + unit) \<times> world" where
  "publish env topic m w =
     (case transport env topic m of
        None \<Rightarrow> (Inr (), w\<lparr> delivered := delivered w @ [(topic, m)],
                            journal := journal w @ [Published topic m] \<rparr>)
      | Some e \<Rightarrow> (Inl e, w\<lparr> journal := journal w @ [Publish_failed topic m e] \<rparr>))"

text \<open>
  Modelled from the spec: the best-effort broadcast of section 4.4, to the fixed
  topic \<open>dashboard\<close>; a failure is swallowed and logged.
\<close>

definition broadcast_thinking :: "environment \<Rightarrow> thought_row \<Rightarrow> world \<Rightarrow> world" where
  "broadcast_thinking env th w =
     (case publish env ''dashboard'' (envelope_of th) w of
        (Inr u, w') \<Rightarrow> w'
      | (Inl e, w') \<Rightarrow> w'\<lparr> log_lines := log_lines w' @ [''Error broadcasting thinking: '' @ e] \<rparr>)"

text \<open>
  Modelled from the spec: \<open>recordThought(agent, content, type, importance)\<close> of
  section 4.4: persist the thought, then publish best-effort, and return the
  thought. The confidence is the default one (section 8).
\<close>

definition recordThought ::
  "environment \<Rightarrow> agent \<Rightarrow> string \<Rightarrow> string \<Rightarrow> string \<Rightarrow> world \<Rightarrow> thought_row \<times> world" where
  "recordThought env a body kind imp w =
     (let th = \<lparr> thought_agent = agent_name a, thought_type = kind, thought_content = body,
                  importance = imp, confidence = default_confidence env,
                  created_at = clock w \<rparr>;
          w1 = persist_thought th w
      in (th, broadcast_thinking env th w1))"

lemma recordThought_row:
  "fst (recordThought env a body kind imp w)
     = \<lparr> thought_agent = agent_name a, thought_type = kind, thought_content = body,
         importance = imp, confidence = default_confidence env, created_at = clock w \<rparr>"
  by (simp add: recordThought_def Let_def)

lemma broadcast_thinking_frame:
  "thought_table (broadcast_thinking env th w) = thought_table w"
  "requests (broadcast_thinking env th w) = requests w"
  "clock (broadcast_thinking env th w) = clock w"
  by (simp_all add: broadcast_thinking_def publish_def split: option.splits)

lemma broadcast_thinking_journal:
  "journal (broadcast_thinking env th w)
     = journal w @ [case transport env ''dashboard'' (envelope_of th) of
                      None \<Rightarrow> Published ''dashboard'' (envelope_of th)
                    | Some e \<Rightarrow> Publish_failed ''dashboard'' (envelope_of th) e]"
  by (simp add: broadcast_thinking_def publish_def split: option.splits)

lemma broadcast_thinking_delivered:
  "delivered (broadcast_thinking env th w)
     = (case transport env ''dashboard'' (envelope_of th) of
          None \<Rightarrow> delivered w @ [(''dashboard'', envelope_of th)]
        | Some e \<Rightarrow> delivered w)"
  by (simp add: broadcast_thinking_def publish_def split: option.splits)

lemma broadcast_thinking_log:
  "log_lines (broadcast_thinking env th w)
     = (case transport env ''dashboard'' (envelope_of th) of
          None \<Rightarrow> log_lines w
        | Some e \<Rightarrow> log_lines w @ [''Error broadcasting thinking: '' @ e])"
  by (simp add: broadcast_thinking_def publish_def split: option.splits)

lemma recordThought_table:
  "thought_table (snd (recordThought env a body kind imp w))
     = thought_table w @ [fst (recordThought env a body kind imp w)]"
  by (simp add: recordThought_def Let_def broadcast_thinking_frame persist_thought_def)

lemma recordThought_requests:
  "requests (snd (recordThought env a body kind imp w)) = requests w"
  by (simp add: recordThought_def Let_def broadcast_thinking_frame persist_thought_def)

text \<open>
  An environment where the broadcast fails and the model answers in prose, with a
  truncation budget of 16 characters.
\<close>

definition demo_environment :: environment where
  "demo_environment =
     \<lparr> transport = (\<lambda>topic m. Some ''no subscribers''),
       endpoint = (\<lambda>req. Completed ''Focus on Europe first'' 12 (3 / 2)),
       parse_extraction = (\<lambda>reply. None),
       default_confidence = 1 / 2,
       system_prompt = ''You are an agent that finds scholarships.'',
       budget = 16,
       analysis_temperature = 1 / 2,
       analysis_max_tokens = 2000 \<rparr>"

definition demo_agent :: agent where
  "demo_agent =
     \<lparr> agent_name = ''Master Scholarship Hunter'', agent_type = ''master'',
       ai_model = ''deepseek/deepseek-v3-0324'', is_active = True \<rparr>"

definition empty_world :: world where
  "empty_world =
     \<lparr> thought_table = [], delivered = [], log_lines = [], requests = [], journal = [],
       clock = 0 \<rparr>"

text \<open>The example of section 8 of the spec, with the broadcast failing.\<close>

lemma recordThought_broadcast_fails:
  "thought_table (snd (recordThought demo_environment demo_agent
      ''Found 3 scholarships at ETH Zurich'' ''discovery'' ''high'' empty_world))
     = [\<lparr> thought_agent = ''Master Scholarship Hunter'', thought_type = ''discovery'',
          thought_content = ''Found 3 scholarships at ETH Zurich'', importance = ''high'',
          confidence = 1 / 2, created_at = 0 \<rparr>]
   \<and> delivered (snd (recordThought demo_environment demo_agent
      ''Found 3 scholarships at ETH Zurich'' ''discovery'' ''high'' empty_world)) = []
   \<and> log_lines (snd (recordThought demo_environment demo_agent
      ''Found 3 scholarships at ETH Zurich'' ''discovery'' ''high'' empty_world))
     = [''Error broadcasting thinking: no subscribers'']"
  by (simp add: recordThought_def persist_thought_def broadcast_thinking_def publish_def
        demo_environment_def demo_agent_def empty_world_def Let_def)

text \<open>
  C6. Whatever the transport does, \<open>recordThought\<close> returns the thought and the
  thought is the new last row of the thought table. The journal shows the write
  first and the publish attempt after it, to the topic \<open>dashboard\<close>, with the
  message \<open>{type: "ai_thinking", agentName, content, thoughtType, confidence,
  timestamp}\<close>. When the publish goes through, the message is delivered under
  that topic; when it fails, nothing is delivered, one line is logged, and the row
  stays.
\<close>

theorem recordThought_persists:
  "fst (recordThought env a body kind imp w)
     = \<lparr> thought_agent = agent_name a, thought_type = kind, thought_content = body,
         importance = imp, confidence = default_confidence env, created_at = clock w \<rparr>
   \<and> thought_table (snd (recordThought env a body kind imp w))
       = thought_table w @ [fst (recordThought env a body kind imp w)]
   \<and> envelope_of (fst (recordThought env a body kind imp w))
       = \<lparr> envelope_type = ''ai_thinking'', agentName = agent_name a, content = body,
           thoughtType = kind, envelope_confidence = default_confidence env,
           timestamp = clock w \<rparr>
   \<and> journal (snd (recordThought env a body kind imp w))
       = journal w
         @ [Stored (fst (recordThought env a body kind imp w)),
            case transport env ''dashboard'' (envelope_of (fst (recordThought env a body kind imp w))) of
              None \<Rightarrow> Published ''dashboard'' (envelope_of (fst (recordThought env a body kind imp w)))
            | Some e \<Rightarrow> Publish_failed ''dashboard''
                          (envelope_of (fst (recordThought env a body kind imp w))) e]
   \<and> delivered (snd (recordThought env a body kind imp w))
       = (case transport env ''dashboard'' (envelope_of (fst (recordThought env a body kind imp w))) of
            None \<Rightarrow> delivered w
                      @ [(''dashboard'', envelope_of (fst (recordThought env a body kind imp w)))]
          | Some e \<Rightarrow> delivered w)
   \<and> log_lines (snd (recordThought env a body kind imp w))
       = (case transport env ''dashboard'' (envelope_of (fst (recordThought env a body kind imp w))) of
            None \<Rightarrow> log_lines w
          | Some e \<Rightarrow> log_lines w @ [''Error broadcasting thinking: '' @ e])"
proof -
  let ?th = "fst (recordThought env a body kind imp w)"
  have w': "snd (recordThought env a body kind imp w)
              = broadcast_thinking env ?th (persist_thought ?th w)"
    by (simp add: recordThought_def Let_def)
  have j: "journal (persist_thought ?th w) = journal w @ [Stored ?th]"
    and l: "log_lines (persist_thought ?th w) = log_lines w"
    and d: "delivered (persist_thought ?th w) = delivered w"
    by (simp_all add: persist_thought_def)
  have e: "envelope_of ?th
       = \<lparr> envelope_type = ''ai_thinking'', agentName = agent_name a, content = body,
           thoughtType = kind, envelope_confidence = default_confidence env,
           timestamp = clock w \<rparr>"
    by (simp add: recordThought_row envelope_of_def)
  show ?thesis
    unfolding w' broadcast_thinking_journal broadcast_thinking_log
      broadcast_thinking_delivered j l d
    using recordThought_row [of env a body kind imp w]
          recordThought_table [of env a body kind imp w] e
    by (simp add: w')
qed

subsection \<open>\<open>analyze\<close>\<close>

text \<open>The decimal digits of a number, for the count a thought reports.\<close>

fun show_nat :: "nat \<Rightarrow> string" where
  "show_nat n =
     (if n < 10 then [''0123456789'' ! n]
      else show_nat (n div 10) @ [''0123456789'' ! (n mod 10)])"

declare show_nat.simps [simp del]

text \<open>
  Modelled from the spec: the prompt of section 4.3 step 3. It names the URL and
  the analysis type and embeds the text it is given.
\<close>

definition analysis_prompt :: "string \<Rightarrow> string \<Rightarrow> string \<Rightarrow> string" where
  "analysis_prompt url analysisType embedded =
     ''Analyze this web content for scholarship opportunities: URL: '' @ url
       @ '' Analysis Type: '' @ analysisType
       @ '' Content: '' @ embedded
       @ '' Respond in JSON format with a scholarships array and analysis_summary.''"

text \<open>
  Modelled from the spec: the completion request of section 4.3 step 3, at the
  analyzer's temperature and token budget.
\<close>

definition analysis_request :: "environment \<Rightarrow> string \<Rightarrow> string \<Rightarrow> string \<Rightarrow> request" where
  "analysis_request env url analysisType embedded =
     \<lparr> messages = [(''system'', system_prompt env),
                    (''user'', analysis_prompt url analysisType embedded)],
       temperature = analysis_temperature env,
       max_tokens = analysis_max_tokens env \<rparr>"

text \<open>
  Modelled from the spec: the chat-completion client of section 4.1, one
  request-response call. The request sent is recorded.
\<close>

definition chat_completion :: "environment \<Rightarrow> request \<Rightarrow> world \<Rightarrow> completion \<times> world" where
  "chat_completion env req w =
     (endpoint env req,
      w\<lparr> requests := requests w @ [req], journal := journal w @ [Requested req] \<rparr>)"

text \<open>Modelled from the spec: the error shape \<open>{error, rawResponse, scholarships: []}\<close>.\<close>

definition error_result :: "string \<Rightarrow> string option \<Rightarrow> analysis" where
  "error_result e raw =
     \<lparr> scholarships = [], analysisSummary = None, error = Some e, rawResponse = raw \<rparr>"

text \<open>
  Modelled from the spec: steps 1 to 5 of section 4.3 up to the handler. \<open>Inl\<close> is an
  exception leaving the body. The spec does not say what the analyzer does with an
  error result of the client; it is taken like an exception of the call, as
  section 7 turns every analysis failure into an error-shaped result.
\<close>

definition analyze_body ::
  "environment \<Rightarrow> agent \<Rightarrow> string \<Rightarrow> string \<Rightarrow> string \<Rightarrow> world \<Rightarrow> (string + analysis) \<times> world" where
  "analyze_body env a raw url analysisType w =
     (let w1 = snd (recordThought env a
                 (''Analyzing content from '' @ url @ '' for '' @ analysisType)
                 ''thinking'' ''medium'' w);
          embedded = take (budget env) raw;
          (res, w2) = chat_completion env (analysis_request env url analysisType embedded) w1
      in case res of
           Raised e \<Rightarrow> (Inl e, w2)
         | Failed e t \<Rightarrow> (Inl e, w2)
         | Completed reply tokens t \<Rightarrow>
             (case parse_extraction env reply of
                None \<Rightarrow>
                  (Inr (error_result ''parse failed'' (Some reply)),
                   snd (recordThought env a ''Failed to parse AI analysis''
                          ''failure'' ''high'' w2))
              | Some x \<Rightarrow>
                  (Inr \<lparr> scholarships = extracted x, analysisSummary = Some (summary x),
                          error = None, rawResponse = None \<rparr>,
                   snd (recordThought env a
                          (''Found '' @ show_nat (length (extracted x)) @ '' scholarships'')
                          ''success'' ''high'' w2))))"

text \<open>
  Modelled from the spec: \<open>analyze(content, url, analysisType)\<close> of section 4.3, the
  body under the handler of step 5: an exception becomes an error thought and the
  result \<open>{error: message, scholarships: []}\<close>.
\<close>

definition analyze ::
  "environment \<Rightarrow> agent \<Rightarrow> string \<Rightarrow> string \<Rightarrow> string \<Rightarrow> world \<Rightarrow> (string + analysis) \<times> world" where
  "analyze env a raw url analysisType w =
     (case analyze_body env a raw url analysisType w of
        (Inr r, w') \<Rightarrow> (Inr r, w')
      | (Inl e, w') \<Rightarrow>
          (Inr (error_result e None),
           snd (recordThought env a (''Content analysis failed: '' @ e)
                  ''error'' ''high'' w')))"

lemma analyze_body_requests:
  "requests (snd (analyze_body env a raw url analysisType w))
     = requests w @ [analysis_request env url analysisType (take (budget env) raw)]"
  by (simp add: analyze_body_def Let_def chat_completion_def recordThought_requests
        split: completion.splits option.splits)

lemma analyze_requests:
  "requests (snd (analyze env a raw url analysisType w))
     = requests w @ [analysis_request env url analysisType (take (budget env) raw)]"
proof (cases "analyze_body env a raw url analysisType w")
  case (Pair r w')
  with analyze_body_requests [of env a raw url analysisType w]
  show ?thesis
    by (cases r) (simp_all add: analyze_def recordThought_requests)
qed

lemma analyze_returns: "\<exists>r. fst (analyze env a raw url analysisType w) = Inr r"
proof (cases "analyze_body env a raw url analysisType w")
  case (Pair r w')
  then show ?thesis by (cases r) (simp_all add: analyze_def)
qed

text \<open>
  C4. For every content string \<open>analyze\<close> returns a result and raises nothing. It
  sends exactly one request, whose prompt embeds the first \<open>budget\<close> characters of
  the content and nothing else of it: the embedded text is never longer than the
  budget, it has exactly the budget's length when the content is longer, and two
  contents with the same first \<open>budget\<close> characters lead to the same request.
\<close>

theorem analyze_total_truncated:
  "(\<exists>r. fst (analyze env a raw url analysisType w) = Inr r)
   \<and> requests (snd (analyze env a raw url analysisType w))
       = requests w @ [analysis_request env url analysisType (take (budget env) raw)]
   \<and> length (take (budget env) raw) \<le> budget env
   \<and> (budget env < length raw \<longrightarrow> length (take (budget env) raw) = budget env)
   \<and> (take (budget env) raw = take (budget env) raw' \<longrightarrow>
        requests (snd (analyze env a raw url analysisType w))
          = requests (snd (analyze env a raw' url analysisType w)))"
  using analyze_returns [of env a raw url analysisType w]
  by (simp add: analyze_requests)

theorem analyze_total_truncated_witness:
  "budget demo_environment < length ''Scholarships in Zurich''
   \<and> take (budget demo_environment) ''Scholarships in Zurich''
       = take (budget demo_environment) ''Scholarships in Paris''
   \<and> length (take (budget demo_environment) ''Scholarships in Zurich'') = 16
   \<and> requests (snd (analyze demo_environment demo_agent ''Scholarships in Zurich''
                      ''https://example.org'' ''scholarship_detection'' empty_world))
       = requests (snd (analyze demo_environment demo_agent ''Scholarships in Paris''
                      ''https://example.org'' ''scholarship_detection'' empty_world))"
proof -
  have b: "budget demo_environment = 16"
    by (simp add: demo_environment_def)
  have p: "take (budget demo_environment) ''Scholarships in Zurich''
             = take (budget demo_environment) ''Scholarships in Paris''"
    by (simp add: b)
  have n: "budget demo_environment < length ''Scholarships in Zurich''"
    by (simp add: b)
  note T = analyze_total_truncated
            [where env = demo_environment and a = demo_agent
               and raw = "''Scholarships in Zurich''" and raw' = "''Scholarships in Paris''"
               and url = "''https://example.org''" and analysisType = "''scholarship_detection''"
               and w = empty_world]
  from T p
  have r: "requests (snd (analyze demo_environment demo_agent ''Scholarships in Zurich''
                      ''https://example.org'' ''scholarship_detection'' empty_world))
       = requests (snd (analyze demo_environment demo_agent ''Scholarships in Paris''
                      ''https://example.org'' ''scholarship_detection'' empty_world))"
    by blast
  from T n
  have "length (take (budget demo_environment) ''Scholarships in Zurich'')
          = budget demo_environment"
    by blast
  then have l: "length (take (budget demo_environment) ''Scholarships in Zurich'') = 16"
    by (simp only: b)
  from n p l r show ?thesis by blast
qed

text \<open>
  C5. When the completion call returns a text that does not parse as the
  structured extraction, \<open>analyze\<close> raises nothing and returns the error shape: an
  error, the raw response, and a list of scholarships of length 0. A failure thought
  is the last row written.
\<close>

theorem analyze_parse_failure:
  assumes "endpoint env (analysis_request env url analysisType (take (budget env) raw))
             = Completed reply tokens t"
    and "parse_extraction env reply = None"
  shows "\<exists>r. fst (analyze env a raw url analysisType w) = Inr r
            \<and> scholarships r = [] \<and> length (scholarships r) = 0
            \<and> error r = Some ''parse failed'' \<and> rawResponse r = Some reply
            \<and> analysisSummary r = None
            \<and> thought_type (last (thought_table (snd (analyze env a raw url analysisType w))))
                = ''failure''"
proof -
  have b: "analyze_body env a raw url analysisType w
      = (Inr (error_result ''parse failed'' (Some reply)),
         snd (recordThought env a ''Failed to parse AI analysis''
                ''failure'' ''high''
                (snd (chat_completion env
                   (analysis_request env url analysisType (take (budget env) raw))
                   (snd (recordThought env a
                      (''Analyzing content from '' @ url @ '' for '' @ analysisType)
                      ''thinking'' ''medium'' w))))))"
    using assms by (simp add: analyze_body_def Let_def chat_completion_def)
  show ?thesis
    unfolding analyze_def b
    by (simp add: error_result_def recordThought_table recordThought_row)
qed

theorem analyze_parse_failure_witness:
  "endpoint demo_environment
       (analysis_request demo_environment ''https://example.org'' ''scholarship_detection''
          (take (budget demo_environment) ''Scholarships in Zurich''))
     = Completed ''Focus on Europe first'' 12 (3 / 2)
   \<and> parse_extraction demo_environment ''Focus on Europe first'' = None
   \<and> fst (analyze demo_environment demo_agent ''Scholarships in Zurich''
            ''https://example.org'' ''scholarship_detection'' empty_world)
       = Inr \<lparr> scholarships = [], analysisSummary = None, error = Some ''parse failed'',
               rawResponse = Some ''Focus on Europe first'' \<rparr>"
proof -
  have c: "endpoint demo_environment
       (analysis_request demo_environment ''https://example.org'' ''scholarship_detection''
          (take (budget demo_environment) ''Scholarships in Zurich''))
     = Completed ''Focus on Europe first'' 12 (3 / 2)"
    by (simp add: demo_environment_def)
  have p: "parse_extraction demo_environment ''Focus on Europe first'' = None"
    by (simp add: demo_environment_def)
  from analyze_parse_failure [OF c p, of demo_agent empty_world]
  obtain r where "fst (analyze demo_environment demo_agent ''Scholarships in Zurich''
            ''https://example.org'' ''scholarship_detection'' empty_world) = Inr r"
    and "scholarships r = []" and "error r = Some ''parse failed''"
    and "rawResponse r = Some ''Focus on Europe first''" and "analysisSummary r = None"
    by blast
  then show ?thesis using c p by (cases r) simp
qed

end
